theory Spec2Isabelle
  imports Main
begin

section \<open>Data model\<close>

text \<open>
  The program is \<^verbatim>\<open>src/app/main.py\<close>: a FastAPI application object with two
  endpoints registered by the decorators \<^verbatim>\<open>@app.get("/")\<close> and
  \<^verbatim>\<open>@app.get("/hello/{name}")\<close>.

  A Python \<^verbatim>\<open>str\<close> is represented by the list of the bytes of its UTF-8 encoding.
  Concatenation of strings is concatenation of their encodings, two strings are equal
  exactly when their encodings are, and the byte of \<^verbatim>\<open>/\<close> occurs in an encoding
  only as the character \<^verbatim>\<open>/\<close>.

  The value an endpoint returns is a Python \<^verbatim>\<open>dict\<close> whose keys and values are
  strings; it is embedded into the type of JSON values, so that "the member is present"
  and "the member is a string" are statements and not typing facts. The serialisation of
  the value to the bytes of the response body is done by the framework and is not part
  of the model: a body is the JSON value itself.

  The framework is the one the program imports, read at fastapi 0.115.11 with
  starlette 0.46.2: \<^verbatim>\<open>fastapi/applications.py\<close>, \<^verbatim>\<open>fastapi/routing.py\<close> and
  \<^verbatim>\<open>starlette/routing.py\<close>.
\<close>

datatype json_value =
    JNull
  | JBool bool
  | JNumber int
  | JString string
  | JArray "json_value list"
  | JObject "(string \<times> json_value) list"

text \<open>A request as the application sees it. The path is the one of the request target,
  still percent-encoded. Query string, headers and body are carried along: an endpoint
  that declares a parameter for them is handed them by the framework.\<close>

record request =
  req_method :: string
  req_path :: string
  req_query :: string
  req_headers :: "(string \<times> string) list"
  req_body :: string

text \<open>The pages that \<^verbatim>\<open>FastAPI()\<close> itself serves when it is called, as in the
  program, without arguments: the OpenAPI schema and the three pages of the interactive
  documentation. What they contain plays no part here.\<close>

datatype framework_page =
    Openapi_json
  | Swagger_ui
  | Swagger_ui_redirect
  | Redoc

text \<open>A response is the value returned by an endpoint (status 200), a page of the
  framework (status 200), the redirect of the router to another path (status 307), or one
  of the two errors of the router.\<close>

datatype response =
    Ok json_value
  | Served framework_page
  | Redirect string
  | NotFound
  | MethodNotAllowed

fun status_code :: "response \<Rightarrow> nat" where
  "status_code (Ok _) = 200"
| "status_code (Served _) = 200"
| "status_code (Redirect _) = 307"
| "status_code NotFound = 404"
| "status_code MethodNotAllowed = 405"

section \<open>The endpoints\<close>

text \<open>\<^verbatim>\<open>def read_root(): return {"message": "Welcome to the FastAPI ECS Fargate app!"}\<close>\<close>

definition read_root :: json_value where
  "read_root = JObject [(''message'', JString ''Welcome to the FastAPI ECS Fargate app!'')]"

text \<open>\<^verbatim>\<open>def read_item(name: str): return {"message": f"Hello {name}!"}\<close>\<close>

definition read_item :: "string \<Rightarrow> json_value" where
  "read_item name = JObject [(''message'', JString (''Hello '' @ name @ ''!''))]"

text \<open>Reading the member \<^verbatim>\<open>message\<close> of a body: defined when the body is an object,
  has the member, and the member is a string.\<close>

fun message_of :: "json_value \<Rightarrow> string option" where
  "message_of (JObject kvs) =
     (case map_of kvs ''message'' of Some (JString s) \<Rightarrow> Some s | _ \<Rightarrow> None)"
| "message_of _ = None"

text \<open>A JSON object in the sense of a Python \<^verbatim>\<open>dict\<close>: no key occurs twice.\<close>

fun is_json_object :: "json_value \<Rightarrow> bool" where
  "is_json_object (JObject kvs) = distinct (map fst kvs)"
| "is_json_object _ = False"

text \<open>
  An endpoint as the framework calls it. The call is given the request, from which the
  framework takes what the signature of the function declares, and the global variables
  of the module, which the body of the function may read and assign; it gives back the
  returned value and the global variables after the call.

  \<^verbatim>\<open>read_root\<close> declares no parameter and \<^verbatim>\<open>read_item\<close> declares only the path
  parameter \<^verbatim>\<open>name\<close>, so nothing of the request is passed to them but the name; the
  body of each is a single \<^verbatim>\<open>return\<close> of a literal, so the global variables are
  given back as they were.
\<close>

type_synonym module_globals = "(string \<times> json_value) list"

definition call_read_root :: "request \<Rightarrow> module_globals \<Rightarrow> json_value \<times> module_globals" where
  "call_read_root req g = (read_root, g)"

definition call_read_item ::
  "request \<Rightarrow> string \<Rightarrow> module_globals \<Rightarrow> json_value \<times> module_globals" where
  "call_read_item req name g = (read_item name, g)"

section \<open>The router\<close>

text \<open>
  Modelled from the spec: URL-decoding of the request path. It is done by the HTTP server
  that hosts the application, which is not part of \<^verbatim>\<open>src/\<close>; the spec only says that
  the path segment is "URL-decoded". A percent sign followed by two hexadecimal digits
  stands for the byte they denote; every other character stands for itself.
\<close>

definition hex_val :: "char \<Rightarrow> nat option" where
  "hex_val c =
     (let n = (of_char c :: nat)
      in if 48 \<le> n \<and> n \<le> 57 then Some (n - 48)
         else if 65 \<le> n \<and> n \<le> 70 then Some (n - 55)
         else if 97 \<le> n \<and> n \<le> 102 then Some (n - 87)
         else None)"

fun url_decode :: "string \<Rightarrow> string" where
  "url_decode [] = []"
| "url_decode (c # cs) =
     (if c = CHR ''%'' then
        (case cs of
           a # b # rest \<Rightarrow>
             (case (hex_val a, hex_val b) of
                (Some h, Some l) \<Rightarrow> char_of (16 * h + l) # url_decode rest
              | _ \<Rightarrow> c # url_decode cs)
         | _ \<Rightarrow> c # url_decode cs)
      else c # url_decode cs)"

text \<open>
  The routes of the framework. There are three shapes in this program:
  \<^item> \<open>Page_route\<close>, a route that \<^verbatim>\<open>FastAPI.setup\<close> adds with \<^verbatim>\<open>add_route\<close>: a fixed
    path served by the framework itself. It is a \<^verbatim>\<open>starlette\<close> \<^verbatim>\<open>Route\<close>, whose
    methods default to \<^verbatim>\<open>GET\<close>, to which \<^verbatim>\<open>HEAD\<close> is added.
  \<^item> \<open>Fixed\<close>, an \<^verbatim>\<open>APIRoute\<close> with a method, a path without parameters, and an
    endpoint.
  \<^item> \<open>One_param\<close>, an \<^verbatim>\<open>APIRoute\<close> with a method, and a path that is a fixed prefix
    followed by one parameter of the default kind \<^verbatim>\<open>str\<close>; the endpoint is called with
    the value of the parameter.
  An \<^verbatim>\<open>APIRoute\<close> has the methods it was registered with and no others.
\<close>

datatype route =
    Page_route string framework_page
  | Fixed string string "request \<Rightarrow> module_globals \<Rightarrow> json_value \<times> module_globals"
  | One_param string string
      "request \<Rightarrow> string \<Rightarrow> module_globals \<Rightarrow> json_value \<times> module_globals"

fun route_methods :: "route \<Rightarrow> string list" where
  "route_methods (Page_route p pg) = [''GET'', ''HEAD'']"
| "route_methods (Fixed m p e) = [m]"
| "route_methods (One_param m p e) = [m]"

text \<open>
  \<^verbatim>\<open>compile_path\<close> turns the path of a route into a regular expression that ends
  with \<^verbatim>\<open>$\<close>, and \<^verbatim>\<open>Route.matches\<close> applies it with \<^verbatim>\<open>match\<close>. In Python
  \<^verbatim>\<open>$\<close> matches at the end of the string and also before a newline that ends the
  string, so a fixed path is matched by itself and by itself followed by one newline.
  The parameter has the expression \<^verbatim>\<open>[^/]+\<close>: it takes all that follows the prefix,
  which has to be non-empty and free of \<^verbatim>\<open>/\<close>.
\<close>

definition matches_fixed :: "string \<Rightarrow> string \<Rightarrow> bool" where
  "matches_fixed p path = (path = p \<or> path = p @ [CHR 0x0A])"

fun path_matches :: "route \<Rightarrow> string \<Rightarrow> bool" where
  "path_matches (Page_route p pg) path = matches_fixed p path"
| "path_matches (Fixed m p e) path = matches_fixed p path"
| "path_matches (One_param m p e) path =
     (take (length p) path = p \<and> drop (length p) path \<noteq> []
      \<and> CHR ''/'' \<notin> set (drop (length p) path))"

text \<open>
  The application object: the routes of its router, the switch \<^verbatim>\<open>redirect_slashes\<close> of
  the router, whether the OpenAPI schema has been generated and stored in the attribute
  \<^verbatim>\<open>openapi_schema\<close>, and the global variables of the module.

  \<^verbatim>\<open>app = FastAPI()\<close> leaves every argument at its default: the router redirects
  slashes, and \<^verbatim>\<open>setup\<close> adds the routes \<^verbatim>\<open>/openapi.json\<close>, \<^verbatim>\<open>/docs\<close>,
  \<^verbatim>\<open>/docs/oauth2-redirect\<close> and \<^verbatim>\<open>/redoc\<close>, in this order. The decorator
  \<^verbatim>\<open>@app.get(path)\<close> appends an \<^verbatim>\<open>APIRoute\<close> with the method \<^verbatim>\<open>GET\<close>.
\<close>

record app_state =
  routes :: "route list"
  redirect_slashes :: bool
  openapi_schema :: bool
  globals :: module_globals

definition FastAPI :: app_state where
  "FastAPI =
     \<lparr>routes = [Page_route ''/openapi.json'' Openapi_json,
                Page_route ''/docs'' Swagger_ui,
                Page_route ''/docs/oauth2-redirect'' Swagger_ui_redirect,
                Page_route ''/redoc'' Redoc],
      redirect_slashes = True,
      openapi_schema = False,
      globals = []\<rparr>"

definition add_api_route :: "route \<Rightarrow> app_state \<Rightarrow> app_state" where
  "add_api_route r st = st\<lparr>routes := routes st @ [r]\<rparr>"

definition app :: app_state where
  "app = add_api_route (One_param ''GET'' ''/hello/'' call_read_item)
           (add_api_route (Fixed ''GET'' ''/'' call_read_root) FastAPI)"

text \<open>
  The loop of \<^verbatim>\<open>Router.app\<close> over the routes, in the order of their registration. The
  first route that matches the path and has the method is taken. A route that matches the
  path without having the method is a partial match; the first of them is kept in
  \<open>partial\<close> and is taken when no route matches in full.
\<close>

datatype found = Full route | Partial route | No_match

fun find_route :: "route list \<Rightarrow> route option \<Rightarrow> string \<Rightarrow> string \<Rightarrow> found" where
  "find_route [] partial m path = (case partial of None \<Rightarrow> No_match | Some r \<Rightarrow> Partial r)"
| "find_route (r # rs) partial m path =
     (if path_matches r path then
        (if m \<in> set (route_methods r) then Full r
         else find_route rs (case partial of None \<Rightarrow> Some r | Some q \<Rightarrow> Some q) m path)
      else find_route rs partial m path)"

text \<open>
  The path that \<^verbatim>\<open>Router.app\<close> tries when no route matches: a path that ends with a
  slash loses all the slashes at its end (\<^verbatim>\<open>rstrip("/")\<close>), any other path gets one.
\<close>

definition rstrip_slash :: "string \<Rightarrow> string" where
  "rstrip_slash path = rev (dropWhile (\<lambda>c. c = CHR ''/'') (rev path))"

definition redirect_path :: "string \<Rightarrow> string" where
  "redirect_path path =
     (if path \<noteq> [] \<and> last path = CHR ''/'' then rstrip_slash path else path @ ''/'')"

text \<open>
  Running the route that was found. An endpoint of the program is called on the request
  and the global variables, and its value is the body of a response with status 200. The
  page \<^verbatim>\<open>/openapi.json\<close> calls \<^verbatim>\<open>FastAPI.openapi\<close>, which generates the schema if
  \<^verbatim>\<open>openapi_schema\<close> holds none and stores it there; the other pages read constants.
\<close>

fun run_route :: "route \<Rightarrow> app_state \<Rightarrow> request \<Rightarrow> string \<Rightarrow> response \<times> app_state" where
  "run_route (Page_route p pg) st req path =
     (Served pg, if pg = Openapi_json then st\<lparr>openapi_schema := True\<rparr> else st)"
| "run_route (Fixed m p e) st req path =
     (case e req (globals st) of (j, g) \<Rightarrow> (Ok j, st\<lparr>globals := g\<rparr>))"
| "run_route (One_param m p e) st req path =
     (case e req (drop (length p) path) (globals st) of (j, g) \<Rightarrow> (Ok j, st\<lparr>globals := g\<rparr>))"

text \<open>
  \<^verbatim>\<open>Router.app\<close> on a method and a decoded path. A full match runs its route, a
  partial match answers method-not-allowed. Without any match, and for a path other than
  \<^verbatim>\<open>/\<close> when the router redirects slashes, the routes are tried on the other path,
  and if one of them matches it, with whatever method, the answer is a redirect to that
  path. Everything else is not-found.
\<close>

definition router_app :: "app_state \<Rightarrow> string \<Rightarrow> string \<Rightarrow> request \<Rightarrow> response \<times> app_state" where
  "router_app st m path req =
     (case find_route (routes st) None m path of
        Full r \<Rightarrow> run_route r st req path
      | Partial r \<Rightarrow> (MethodNotAllowed, st)
      | No_match \<Rightarrow>
          if path \<noteq> ''/'' \<and> redirect_slashes st
             \<and> list_ex (\<lambda>r. path_matches r (redirect_path path)) (routes st)
          then (Redirect (redirect_path path), st)
          else (NotFound, st))"

text \<open>Handling one request: the server decodes the path and calls the application. The
  result is the response and the application object after the call.\<close>

definition handle :: "app_state \<Rightarrow> request \<Rightarrow> response \<times> app_state" where
  "handle st req = router_app st (req_method req) (url_decode (req_path req)) req"


text \<open>The name used by the Unicode example of the spec: the two characters U+4E16 and
  U+754C, as the six bytes of their UTF-8 encoding.\<close>

definition world_name :: string where
  "world_name = [CHR 0xE4, CHR 0xB8, CHR 0x96, CHR 0xE7, CHR 0x95, CHR 0x8C]"

section \<open>Auxiliary facts\<close>

lemma app_routes:
  "routes app =
     [Page_route ''/openapi.json'' Openapi_json,
      Page_route ''/docs'' Swagger_ui,
      Page_route ''/docs/oauth2-redirect'' Swagger_ui_redirect,
      Page_route ''/redoc'' Redoc,
      Fixed ''GET'' ''/'' call_read_root,
      One_param ''GET'' ''/hello/'' call_read_item]"
  by (simp add: app_def add_api_route_def FastAPI_def)

lemma app_fields:
  "redirect_slashes app" "\<not> openapi_schema app" "globals app = []"
  by (simp_all add: app_def add_api_route_def FastAPI_def)

lemma one_param_iff:
  "path_matches (One_param m p e) path
     = (\<exists>s. path = p @ s \<and> s \<noteq> [] \<and> CHR ''/'' \<notin> set s)"
proof
  assume l: "path_matches (One_param m p e) path"
  have "path = take (length p) path @ drop (length p) path" by simp
  with l have "path = p @ drop (length p) path" by simp
  with l show "\<exists>s. path = p @ s \<and> s \<noteq> [] \<and> CHR ''/'' \<notin> set s" by auto
next
  assume "\<exists>s. path = p @ s \<and> s \<noteq> [] \<and> CHR ''/'' \<notin> set s"
  then show "path_matches (One_param m p e) path" by auto
qed

lemma find_route_no_match:
  "(find_route rs partial m path = No_match)
     = (partial = None \<and> \<not> list_ex (\<lambda>r. path_matches r path) rs)"
  by (induction rs arbitrary: partial) (auto split: option.splits)

lemma find_route_full:
  "find_route rs partial m path = Full r \<Longrightarrow>
     r \<in> set rs \<and> path_matches r path \<and> m \<in> set (route_methods r)"
  by (induction rs arbitrary: partial) (auto split: option.splits if_splits)

lemma run_route_not_error:
  "fst (run_route r st req path) \<noteq> NotFound"
  "fst (run_route r st req path) \<noteq> MethodNotAllowed"
  by (cases r; simp split: prod.splits)+

lemma find_app_root:
  "find_route (routes app) None m ''/'' =
     (if m = ''GET'' then Full (Fixed ''GET'' ''/'' call_read_root)
      else Partial (Fixed ''GET'' ''/'' call_read_root))"
  by (simp add: app_routes matches_fixed_def)

lemma find_app_hello:
  assumes "s \<noteq> []" and "CHR ''/'' \<notin> set s"
  shows "find_route (routes app) None m (''/hello/'' @ s) =
     (if m = ''GET'' then Full (One_param ''GET'' ''/hello/'' call_read_item)
      else Partial (One_param ''GET'' ''/hello/'' call_read_item))"
  using assms by (simp add: app_routes matches_fixed_def)

lemma any_match_app:
  "list_ex (\<lambda>r. path_matches r q) (routes app)
     = ((\<exists>f \<in> set [''/'', ''/openapi.json'', ''/docs'', ''/docs/oauth2-redirect'', ''/redoc''].
           matches_fixed f q)
        \<or> (\<exists>s. q = ''/hello/'' @ s \<and> s \<noteq> [] \<and> CHR ''/'' \<notin> set s))"
proof -
  have h: "path_matches (One_param ''GET'' ''/hello/'' call_read_item) q
             = (\<exists>s. q = ''/hello/'' @ s \<and> s \<noteq> [] \<and> CHR ''/'' \<notin> set s)"
    by (rule one_param_iff)
  have b: "(\<exists>f \<in> set [''/'', ''/openapi.json'', ''/docs'', ''/docs/oauth2-redirect'', ''/redoc''].
              matches_fixed f q)
           = (matches_fixed ''/openapi.json'' q \<or> matches_fixed ''/docs'' q
              \<or> matches_fixed ''/docs/oauth2-redirect'' q \<or> matches_fixed ''/redoc'' q
              \<or> matches_fixed ''/'' q)"
    by (simp only: list.set bex_simps) blast
  show ?thesis
    unfolding app_routes list_ex_Cons_iff list_ex_Nil_iff path_matches.simps(1,2) h b
    by blast
qed

lemma run_root:
  "run_route (Fixed ''GET'' ''/'' call_read_root) st req path = (Ok read_root, st)"
  by (simp add: call_read_root_def)

lemma run_hello:
  "run_route (One_param ''GET'' ''/hello/'' call_read_item) st req (''/hello/'' @ s)
     = (Ok (read_item s), st)"
  by (simp add: call_read_item_def)

lemma router_app_root:
  assumes "routes st = routes app"
  shows "router_app st m ''/'' req =
           (if m = ''GET'' then (Ok read_root, st) else (MethodNotAllowed, st))"
  by (simp only: router_app_def assms find_app_root run_root found.case split: if_split) simp

lemma router_app_hello:
  assumes "routes st = routes app" and "s \<noteq> []" and "CHR ''/'' \<notin> set s"
  shows "router_app st m (''/hello/'' @ s) req =
           (if m = ''GET'' then (Ok (read_item s), st) else (MethodNotAllowed, st))"
proof (cases "m = ''GET''")
  case True
  have "find_route (routes app) None m (''/hello/'' @ s)
          = Full (One_param ''GET'' ''/hello/'' call_read_item)"
    using True find_app_hello [OF assms(2,3), of m] by simp
  then have "router_app st m (''/hello/'' @ s) req
               = run_route (One_param ''GET'' ''/hello/'' call_read_item) st req (''/hello/'' @ s)"
    by (simp only: router_app_def assms(1) found.case)
  also have "\<dots> = (Ok (read_item s), st)"
    by (rule run_hello)
  finally show ?thesis using True by simp
next
  case False
  have "find_route (routes app) None m (''/hello/'' @ s)
          = Partial (One_param ''GET'' ''/hello/'' call_read_item)"
    using False find_app_hello [OF assms(2,3), of m] by simp
  then have "router_app st m (''/hello/'' @ s) req = (MethodNotAllowed, st)"
    by (simp only: router_app_def assms(1) found.case)
  then show ?thesis using False by simp
qed

lemma router_app_not_found_iff:
  assumes "routes st = routes app" and "redirect_slashes st"
  shows "(fst (router_app st m p req) = NotFound)
           = (\<not> list_ex (\<lambda>r. path_matches r p) (routes app)
              \<and> \<not> list_ex (\<lambda>r. path_matches r (redirect_path p)) (routes app))"
proof (cases "find_route (routes app) None m p")
  case (Full r)
  then have "list_ex (\<lambda>r. path_matches r p) (routes app)"
    using find_route_no_match [of "routes app" None m p] by simp
  moreover have "fst (router_app st m p req) \<noteq> NotFound"
    using Full run_route_not_error(1) [of r st req p] by (simp add: router_app_def assms(1))
  ultimately show ?thesis by simp
next
  case (Partial r)
  then have "list_ex (\<lambda>r. path_matches r p) (routes app)"
    using find_route_no_match [of "routes app" None m p] by simp
  moreover have "fst (router_app st m p req) \<noteq> NotFound"
    using Partial by (simp add: router_app_def assms(1))
  ultimately show ?thesis by simp
next
  case No_match
  then have n: "\<not> list_ex (\<lambda>r. path_matches r p) (routes app)"
    using find_route_no_match [of "routes app" None m p] by simp
  have "list_ex (\<lambda>r. path_matches r ''/'') (routes app)"
    by (simp add: app_routes matches_fixed_def)
  with n have "p \<noteq> ''/''" by blast
  then show ?thesis
    using No_match n assms by (simp add: router_app_def)
qed

lemma handle_app:
  "handle st req = router_app st (req_method req) (url_decode (req_path req)) req"
  by (simp add: handle_def)

lemma url_decode_hello_prefix:
  "url_decode (''/hello/'' @ s) = ''/hello/'' @ url_decode s"
  by simp

lemma url_decode_world: "url_decode ''/hello/%E4%B8%96%E7%95%8C'' = ''/hello/'' @ world_name"
  by code_simp

lemma url_decode_world_raw: "url_decode (''/hello/'' @ world_name) = ''/hello/'' @ world_name"
  by code_simp

lemma world_name_segment: "world_name \<noteq> [] \<and> CHR ''/'' \<notin> set world_name"
  by code_simp

lemma unmatched_iff:
  "(\<not> list_ex (\<lambda>r. path_matches r q) (routes app))
     = ((\<forall>f \<in> set [''/'', ''/openapi.json'', ''/docs'', ''/docs/oauth2-redirect'', ''/redoc''].
           \<not> matches_fixed f q)
        \<and> (\<forall>s. q = ''/hello/'' @ s \<longrightarrow> s = [] \<or> CHR ''/'' \<in> set s))"
  unfolding any_match_app by blast

lemma ball_pair: "(\<forall>q \<in> {a, b}. P q) = (P a \<and> P b)"
  by blast

lemma handle_not_found_iff:
  "(fst (handle app req) = NotFound)
     = (\<not> list_ex (\<lambda>r. path_matches r (url_decode (req_path req))) (routes app)
        \<and> \<not> list_ex (\<lambda>r. path_matches r (redirect_path (url_decode (req_path req)))) (routes app))"
  unfolding handle_app
  by (rule router_app_not_found_iff [OF refl app_fields(1)])

lemma run_route_app:
  assumes "r \<in> set (routes app)"
  shows "fst (run_route r st req p) = fst (run_route r app req p)"
    and "fst (run_route r st req p) = fst (run_route r st req' p)"
    and "snd (run_route r st req p)
           = (if r = Page_route ''/openapi.json'' Openapi_json
              then st\<lparr>openapi_schema := True\<rparr> else st)"
  using assms
  by (auto simp add: app_routes call_read_root_def call_read_item_def)



lemma router_app_response:
  assumes "routes st = routes app" and "redirect_slashes st"
  shows "fst (router_app st m p req) = fst (router_app app m p req')"
proof (cases "find_route (routes app) None m p")
  case (Full r)
  then have "r \<in> set (routes app)" by (simp add: find_route_full)
  then have "fst (run_route r st req p) = fst (run_route r app req' p)"
    using run_route_app(1) [of r st req p] run_route_app(2) [of r app req p req'] by simp
  then show ?thesis using Full by (simp add: router_app_def assms(1))
next
  case (Partial r)
  then show ?thesis by (simp add: router_app_def assms(1))
next
  case No_match
  then show ?thesis by (simp add: router_app_def assms app_fields(1))
qed



lemma router_app_not_found:
  assumes "(\<forall>f \<in> set [''/'', ''/openapi.json'', ''/docs'', ''/docs/oauth2-redirect'', ''/redoc''].
              \<not> matches_fixed f p)
           \<and> (\<forall>s. p = ''/hello/'' @ s \<longrightarrow> s = [] \<or> CHR ''/'' \<in> set s)"
    and "(\<forall>f \<in> set [''/'', ''/openapi.json'', ''/docs'', ''/docs/oauth2-redirect'', ''/redoc''].
              \<not> matches_fixed f (redirect_path p))
           \<and> (\<forall>s. redirect_path p = ''/hello/'' @ s \<longrightarrow> s = [] \<or> CHR ''/'' \<in> set s)"
  shows "fst (router_app app m p req) = NotFound"
proof -
  have "\<not> list_ex (\<lambda>r. path_matches r p) (routes app)"
    using assms(1) by (simp only: unmatched_iff)
  moreover have "\<not> list_ex (\<lambda>r. path_matches r (redirect_path p)) (routes app)"
    using assms(2) by (simp only: unmatched_iff)
  ultimately show ?thesis
    by (simp add: router_app_not_found_iff [OF refl app_fields(1)])
qed

lemma redirect_path_hello_slash: "redirect_path ''/hello/'' = ''/hello''"
  by (simp add: redirect_path_def rstrip_slash_def)

lemma redirect_path_no_slash:
  "p \<noteq> [] \<Longrightarrow> last p \<noteq> CHR ''/'' \<Longrightarrow> redirect_path p = p @ ''/''"
  by (simp add: redirect_path_def)

lemma ok_response_is_endpoint_result:
  assumes "fst (handle app req) = Ok j"
  shows "j = read_root \<or> (\<exists>name. j = read_item name)"
proof (cases "find_route (routes app) None (req_method req) (url_decode (req_path req))")
  case (Full r)
  then have "r \<in> set (routes app)" by (simp add: find_route_full)
  then show ?thesis using assms Full
    by (auto simp add: handle_app router_app_def app_routes call_read_root_def call_read_item_def)
next
  case (Partial r)
  then show ?thesis using assms by (simp add: handle_app router_app_def)
next
  case No_match
  then show ?thesis using assms by (simp add: handle_app router_app_def split: if_splits)
qed

section \<open>The two routes\<close>

text \<open>
  C1. A \<^verbatim>\<open>GET\<close> request whose path is \<^verbatim>\<open>/hello/\<close> followed by one segment, the
  segment URL-decoding to a non-empty string \<open>s\<close> without \<^verbatim>\<open>/\<close>, is answered with
  status 200 and the body \<^verbatim>\<open>{"message": "Hello s!"}\<close>, the decoded string placed between
  \<^verbatim>\<open>Hello\<close> and \<^verbatim>\<open>!\<close> as it is, whatever its characters and its length.
\<close>

theorem hello_returns_greeting:
  assumes "req_method req = ''GET''"
    and "req_path req = ''/hello/'' @ seg"
    and "url_decode seg = s"
    and "s \<noteq> []"
    and "CHR ''/'' \<notin> set s"
  shows "fst (handle app req) = Ok (JObject [(''message'', JString (''Hello '' @ s @ ''!''))])
         \<and> status_code (fst (handle app req)) = 200"
proof -
  have "url_decode (req_path req) = ''/hello/'' @ s"
    using assms(2,3) by (simp only: url_decode_hello_prefix)
  moreover have "router_app app ''GET'' (''/hello/'' @ s) req = (Ok (read_item s), app)"
    using router_app_hello [OF refl assms(4,5), of "''GET''" req] by simp
  ultimately have "fst (handle app req) = Ok (read_item s)"
    using assms(1) by (simp only: handle_app fst_conv)
  then show ?thesis by (simp add: read_item_def)
qed

text \<open>
  The hypotheses hold for the segment \<^verbatim>\<open>%3Cb%3E%20x\<close>, which decodes to a name with
  angle brackets and a space; the name reaches the body unchanged.
\<close>

theorem hello_returns_greeting_witness:
  "req_method \<lparr>req_method = ''GET'', req_path = ''/hello/%3Cb%3E%20x'', req_query = ''q=1'',
      req_headers = [], req_body = []\<rparr> = ''GET''
   \<and> url_decode ''%3Cb%3E%20x'' = ''<b> x''
   \<and> ''<b> x'' \<noteq> [] \<and> CHR ''/'' \<notin> set ''<b> x''
   \<and> fst (handle app \<lparr>req_method = ''GET'', req_path = ''/hello/%3Cb%3E%20x'', req_query = ''q=1'',
      req_headers = [], req_body = []\<rparr>) = Ok (JObject [(''message'', JString ''Hello <b> x!'')])"
proof -
  have d: "url_decode ''%3Cb%3E%20x'' = ''<b> x''" by code_simp
  show ?thesis
    using d hello_returns_greeting [of "\<lparr>req_method = ''GET'', req_path = ''/hello/%3Cb%3E%20x'',
      req_query = ''q=1'', req_headers = [], req_body = []\<rparr>" "''%3Cb%3E%20x''" "''<b> x''"]
    by simp
qed

text \<open>
  C2. A \<^verbatim>\<open>GET\<close> request for \<^verbatim>\<open>/\<close> is answered with status 200 and the body
  \<^verbatim>\<open>{"message": "Welcome to the FastAPI ECS Fargate app!"}\<close>, whatever its query
  string, headers and body are.
\<close>

theorem root_returns_welcome:
  "fst (handle app \<lparr>req_method = ''GET'', req_path = ''/'', req_query = q, req_headers = h,
      req_body = b\<rparr>)
     = Ok (JObject [(''message'', JString ''Welcome to the FastAPI ECS Fargate app!'')])
   \<and> status_code (fst (handle app \<lparr>req_method = ''GET'', req_path = ''/'', req_query = q,
      req_headers = h, req_body = b\<rparr>)) = 200"
  by (simp add: handle_app router_app_root read_root_def)

text \<open>
  C7. The Unicode example: the name of two characters U+4E16 U+754C, arriving
  percent-encoded as \<^verbatim>\<open>%E4%B8%96%E7%95%8C\<close>, is greeted with status 200 and the
  message \<^verbatim>\<open>Hello \<close> followed by the name and \<^verbatim>\<open>!\<close>; so is the same name arriving
  as its bytes.
\<close>

theorem hello_unicode:
  "fst (handle app \<lparr>req_method = ''GET'', req_path = ''/hello/%E4%B8%96%E7%95%8C'', req_query = q,
      req_headers = h, req_body = b\<rparr>)
     = Ok (JObject [(''message'', JString (''Hello '' @ world_name @ ''!''))])
   \<and> status_code (fst (handle app \<lparr>req_method = ''GET'', req_path = ''/hello/%E4%B8%96%E7%95%8C'',
      req_query = q, req_headers = h, req_body = b\<rparr>)) = 200
   \<and> fst (handle app \<lparr>req_method = ''GET'', req_path = ''/hello/'' @ world_name, req_query = q,
      req_headers = h, req_body = b\<rparr>)
     = Ok (JObject [(''message'', JString (''Hello '' @ world_name @ ''!''))])"
proof -
  have d: "\<And>r. router_app app ''GET'' (''/hello/'' @ world_name) r = (Ok (read_item world_name), app)"
    using world_name_segment router_app_hello [of app world_name "''GET''"] by simp
  have 1: "fst (handle app \<lparr>req_method = ''GET'', req_path = ''/hello/%E4%B8%96%E7%95%8C'',
      req_query = q, req_headers = h, req_body = b\<rparr>) = Ok (read_item world_name)"
    by (simp only: handle_app request.simps url_decode_world d fst_conv)
  have 2: "fst (handle app \<lparr>req_method = ''GET'', req_path = ''/hello/'' @ world_name,
      req_query = q, req_headers = h, req_body = b\<rparr>) = Ok (read_item world_name)"
    by (simp only: handle_app request.simps url_decode_world_raw d fst_conv)
  show ?thesis
    unfolding 1 2 by (simp add: read_item_def)
qed

section \<open>Errors of the router\<close>

text \<open>
  C3. Not every path that matches neither registered route is answered with not-found:
  the application object made by \<^verbatim>\<open>FastAPI()\<close> serves pages of its own, and its
  router redirects between a path with and without slashes at the end. What holds is
  this.

  A request is answered with not-found (404) exactly when no route matches its decoded
  path and no route matches the path that the router tries in its place (the path without
  the slashes at its end, or with one slash added): a route matches one of \<^verbatim>\<open>/\<close>,
  \<^verbatim>\<open>/openapi.json\<close>, \<^verbatim>\<open>/docs\<close>, \<^verbatim>\<open>/docs/oauth2-redirect\<close> and \<^verbatim>\<open>/redoc\<close>,
  each also when one newline follows it, and \<^verbatim>\<open>/hello/\<close> followed by a non-empty
  segment without \<^verbatim>\<open>/\<close>.

  A request whose decoded path is \<^verbatim>\<open>/\<close> or \<^verbatim>\<open>/hello/\<close> followed by such a segment,
  and whose method is not \<^verbatim>\<open>GET\<close>, is answered with method-not-allowed (405), never
  with 200. In particular \<^verbatim>\<open>POST /\<close> is answered with method-not-allowed.
\<close>

theorem router_errors:
  "((\<forall>q \<in> {url_decode (req_path req), redirect_path (url_decode (req_path req))}.
        (\<forall>f \<in> set [''/'', ''/openapi.json'', ''/docs'', ''/docs/oauth2-redirect'', ''/redoc''].
            \<not> matches_fixed f q)
        \<and> (\<forall>s. q = ''/hello/'' @ s \<longrightarrow> s = [] \<or> CHR ''/'' \<in> set s))
      \<longrightarrow> fst (handle app req) = NotFound \<and> status_code (fst (handle app req)) = 404)
   \<and> (fst (handle app req) = NotFound
      \<longrightarrow> (\<forall>q \<in> {url_decode (req_path req), redirect_path (url_decode (req_path req))}.
        (\<forall>f \<in> set [''/'', ''/openapi.json'', ''/docs'', ''/docs/oauth2-redirect'', ''/redoc''].
            \<not> matches_fixed f q)
        \<and> (\<forall>s. q = ''/hello/'' @ s \<longrightarrow> s = [] \<or> CHR ''/'' \<in> set s)))
   \<and> ((url_decode (req_path req) = ''/''
         \<or> (\<exists>s. url_decode (req_path req) = ''/hello/'' @ s \<and> s \<noteq> [] \<and> CHR ''/'' \<notin> set s))
        \<and> req_method req \<noteq> ''GET''
      \<longrightarrow> fst (handle app req) = MethodNotAllowed
          \<and> status_code (fst (handle app req)) = 405
          \<and> status_code (fst (handle app req)) \<noteq> 200)
   \<and> fst (handle app \<lparr>req_method = ''POST'', req_path = ''/'', req_query = q, req_headers = h,
        req_body = b\<rparr>) = MethodNotAllowed"
proof -
  let ?p = "url_decode (req_path req)"
  let ?unmatched = "\<lambda>q. (\<forall>f \<in> set [''/'', ''/openapi.json'', ''/docs'', ''/docs/oauth2-redirect'',
        ''/redoc'']. \<not> matches_fixed f q)
        \<and> (\<forall>s. q = ''/hello/'' @ s \<longrightarrow> s = [] \<or> CHR ''/'' \<in> set s)"
  have nf: "(fst (handle app req) = NotFound) = (\<forall>q \<in> {?p, redirect_path ?p}. ?unmatched q)"
    by (simp only: handle_not_found_iff unmatched_iff ball_pair)
  have a: "(\<forall>q \<in> {?p, redirect_path ?p}. ?unmatched q) \<longrightarrow>
             fst (handle app req) = NotFound \<and> status_code (fst (handle app req)) = 404"
  proof
    assume "\<forall>q \<in> {?p, redirect_path ?p}. ?unmatched q"
    then have "fst (handle app req) = NotFound" by (rule iffD2 [OF nf])
    then show "fst (handle app req) = NotFound \<and> status_code (fst (handle app req)) = 404"
      by simp
  qed
  have b: "fst (handle app req) = NotFound \<longrightarrow> (\<forall>q \<in> {?p, redirect_path ?p}. ?unmatched q)"
  proof
    assume x: "fst (handle app req) = NotFound"
    show "\<forall>q \<in> {?p, redirect_path ?p}. ?unmatched q"
      by (rule iffD1 [OF nf x])
  qed
  have c: "(?p = ''/'' \<or> (\<exists>s. ?p = ''/hello/'' @ s \<and> s \<noteq> [] \<and> CHR ''/'' \<notin> set s))
        \<and> req_method req \<noteq> ''GET''
      \<longrightarrow> fst (handle app req) = MethodNotAllowed
          \<and> status_code (fst (handle app req)) = 405
          \<and> status_code (fst (handle app req)) \<noteq> 200"
  proof
    assume h: "(?p = ''/'' \<or> (\<exists>s. ?p = ''/hello/'' @ s \<and> s \<noteq> [] \<and> CHR ''/'' \<notin> set s))
        \<and> req_method req \<noteq> ''GET''"
    then have m: "req_method req \<noteq> ''GET''" by blast
    from h consider (root) "?p = ''/''"
      | (hello) s where "?p = ''/hello/'' @ s" "s \<noteq> []" "CHR ''/'' \<notin> set s"
      by blast
    then have "router_app app (req_method req) ?p req = (MethodNotAllowed, app)"
    proof cases
      case root
      have "router_app app (req_method req) ''/'' req = (MethodNotAllowed, app)"
        using m router_app_root [OF refl, of "req_method req" req] by simp
      with root show ?thesis by simp
    next
      case hello
      have "router_app app (req_method req) (''/hello/'' @ s) req = (MethodNotAllowed, app)"
        using m router_app_hello [OF refl hello(2,3), of "req_method req" req] by simp
      with hello(1) show ?thesis by simp
    qed
    then have "fst (handle app req) = MethodNotAllowed"
      by (simp only: handle_app fst_conv)
    then show "fst (handle app req) = MethodNotAllowed
          \<and> status_code (fst (handle app req)) = 405
          \<and> status_code (fst (handle app req)) \<noteq> 200"
      by simp
  qed
  have d: "fst (handle app \<lparr>req_method = ''POST'', req_path = ''/'', req_query = q, req_headers = h,
        req_body = b\<rparr>) = MethodNotAllowed"
    by (simp add: handle_app router_app_root)
  from a b c d show ?thesis by (intro conjI)
qed

text \<open>
  Both hypotheses are met: \<^verbatim>\<open>GET /nope\<close> matches no route, and neither does
  \<^verbatim>\<open>/nope/\<close>; \<^verbatim>\<open>DELETE /hello/bob\<close> matches the second route of the program with
  a method other than \<^verbatim>\<open>GET\<close>.
\<close>

theorem router_errors_witness:
  "fst (handle app \<lparr>req_method = ''GET'', req_path = ''/nope'', req_query = [],
       req_headers = [], req_body = []\<rparr>) = NotFound
   \<and> url_decode (req_path \<lparr>req_method = ''DELETE'', req_path = ''/hello/bob'', req_query = [],
       req_headers = [], req_body = []\<rparr>) = ''/hello/'' @ ''bob''
   \<and> ''bob'' \<noteq> [] \<and> CHR ''/'' \<notin> set ''bob''
   \<and> req_method \<lparr>req_method = ''DELETE'', req_path = ''/hello/bob'', req_query = [],
       req_headers = [], req_body = []\<rparr> \<noteq> ''GET''
   \<and> fst (handle app \<lparr>req_method = ''DELETE'', req_path = ''/hello/bob'', req_query = [],
       req_headers = [], req_body = []\<rparr>) = MethodNotAllowed"
proof -
  let ?r1 = "\<lparr>req_method = ''GET'', req_path = ''/nope'', req_query = [],
       req_headers = [], req_body = []\<rparr>"
  let ?r2 = "\<lparr>req_method = ''DELETE'', req_path = ''/hello/bob'', req_query = [],
       req_headers = [], req_body = []\<rparr>"
  have d1: "url_decode (req_path ?r1) = ''/nope''" by code_simp
  have r1: "redirect_path ''/nope'' = ''/nope/''"
    by (simp add: redirect_path_def)
  have u1: "(\<forall>f \<in> set [''/'', ''/openapi.json'', ''/docs'', ''/docs/oauth2-redirect'', ''/redoc''].
              \<not> matches_fixed f ''/nope'')
            \<and> (\<forall>s. ''/nope'' = ''/hello/'' @ s \<longrightarrow> s = [] \<or> CHR ''/'' \<in> set s)"
    by (simp add: matches_fixed_def)
  have u2: "(\<forall>f \<in> set [''/'', ''/openapi.json'', ''/docs'', ''/docs/oauth2-redirect'', ''/redoc''].
              \<not> matches_fixed f ''/nope/'')
            \<and> (\<forall>s. ''/nope/'' = ''/hello/'' @ s \<longrightarrow> s = [] \<or> CHR ''/'' \<in> set s)"
    by (simp add: matches_fixed_def)
  have n: "\<forall>q \<in> {url_decode (req_path ?r1), redirect_path (url_decode (req_path ?r1))}.
        (\<forall>f \<in> set [''/'', ''/openapi.json'', ''/docs'', ''/docs/oauth2-redirect'', ''/redoc''].
            \<not> matches_fixed f q)
        \<and> (\<forall>s. q = ''/hello/'' @ s \<longrightarrow> s = [] \<or> CHR ''/'' \<in> set s)"
    unfolding d1 r1 ball_pair using u1 u2 by (rule conjI)
  have 1: "fst (handle app ?r1) = NotFound"
    by (rule router_errors [of ?r1, THEN conjunct1, THEN mp, OF n, THEN conjunct1])
  have d2: "url_decode (req_path ?r2) = ''/hello/'' @ ''bob''" by code_simp
  have m2: "req_method ?r2 \<noteq> ''GET''" by simp
  have b: "''bob'' \<noteq> [] \<and> CHR ''/'' \<notin> set ''bob''" by simp
  have e: "url_decode (req_path ?r2) = ''/''
         \<or> (\<exists>s. url_decode (req_path ?r2) = ''/hello/'' @ s \<and> s \<noteq> [] \<and> CHR ''/'' \<notin> set s)"
    using d2 b by blast
  have 2: "fst (handle app ?r2) = MethodNotAllowed"
    by (rule router_errors [of ?r2, THEN conjunct2, THEN conjunct2, THEN conjunct1, THEN mp,
          OF conjI [OF e m2], THEN conjunct1])
  from 1 d2 b m2 2 show ?thesis by (intro conjI) blast+
qed

text \<open>
  Two requests whose path matches neither route of the program and that are not answered
  with not-found. The path \<^verbatim>\<open>/docs\<close> is answered with status 200, by the page of the
  framework.
  The path \<^verbatim>\<open>/hello/bob/\<close> is answered with status 307, the redirect to
  \<^verbatim>\<open>/hello/bob\<close>.
\<close>

theorem router_errors_counterexample:
  "\<not> path_matches (Fixed ''GET'' ''/'' call_read_root) (url_decode ''/docs'')
   \<and> \<not> path_matches (One_param ''GET'' ''/hello/'' call_read_item) (url_decode ''/docs'')
   \<and> fst (handle app \<lparr>req_method = ''GET'', req_path = ''/docs'', req_query = [],
        req_headers = [], req_body = []\<rparr>) = Served Swagger_ui
   \<and> status_code (fst (handle app \<lparr>req_method = ''GET'', req_path = ''/docs'', req_query = [],
        req_headers = [], req_body = []\<rparr>)) = 200
   \<and> \<not> path_matches (Fixed ''GET'' ''/'' call_read_root) (url_decode ''/hello/bob/'')
   \<and> \<not> path_matches (One_param ''GET'' ''/hello/'' call_read_item) (url_decode ''/hello/bob/'')
   \<and> fst (handle app \<lparr>req_method = ''GET'', req_path = ''/hello/bob/'', req_query = [],
        req_headers = [], req_body = []\<rparr>) = Redirect ''/hello/bob''
   \<and> status_code (fst (handle app \<lparr>req_method = ''GET'', req_path = ''/hello/bob/'',
        req_query = [], req_headers = [], req_body = []\<rparr>)) = 307"
  by (simp add: handle_app router_app_def app_routes app_fields matches_fixed_def
        redirect_path_def rstrip_slash_def)

text \<open>
  C4. \<^verbatim>\<open>GET /hello/\<close>, where the segment of the name is empty, does not match
  \<^verbatim>\<open>/hello/{name}\<close>: the answer is not-found, not a greeting.
\<close>

theorem empty_name_not_found:
  "fst (handle app \<lparr>req_method = ''GET'', req_path = ''/hello/'', req_query = q,
      req_headers = h, req_body = b\<rparr>) = NotFound
   \<and> status_code (fst (handle app \<lparr>req_method = ''GET'', req_path = ''/hello/'', req_query = q,
      req_headers = h, req_body = b\<rparr>)) = 404"
proof -
  have "fst (router_app app ''GET'' ''/hello/'' \<lparr>req_method = ''GET'', req_path = ''/hello/'',
      req_query = q, req_headers = h, req_body = b\<rparr>) = NotFound"
    by (rule router_app_not_found) (simp_all add: redirect_path_hello_slash matches_fixed_def)
  then show ?thesis by (simp add: handle_app)
qed

text \<open>
  C8. The route \<^verbatim>\<open>/hello/{name}\<close> takes exactly one segment after \<^verbatim>\<open>/hello\<close>: the
  path \<^verbatim>\<open>/hello\<close> without a further segment, the path \<^verbatim>\<open>/hello/a/b\<close>, and every
  path that continues after a \<^verbatim>\<open>/\<close> with a further segment that is non-empty and does
  not end with a slash, match no route and are answered with not-found, whatever the
  method.
\<close>

theorem hello_needs_one_segment:
  "fst (handle app \<lparr>req_method = m, req_path = ''/hello'', req_query = q, req_headers = h,
      req_body = b\<rparr>) = NotFound
   \<and> fst (handle app \<lparr>req_method = m, req_path = ''/hello/a/b'', req_query = q, req_headers = h,
      req_body = b\<rparr>) = NotFound
   \<and> (url_decode (req_path req) = ''/hello/'' @ s1 @ ''/'' @ s2 \<and> s2 \<noteq> []
        \<and> last s2 \<noteq> CHR ''/''
        \<longrightarrow> fst (handle app req) = NotFound \<and> status_code (fst (handle app req)) = 404)"
proof (intro conjI impI)
  have r: "redirect_path ''/hello'' = ''/hello/''"
    by (simp add: redirect_path_def)
  have "fst (router_app app m ''/hello'' \<lparr>req_method = m, req_path = ''/hello'', req_query = q,
      req_headers = h, req_body = b\<rparr>) = NotFound"
    by (rule router_app_not_found) (simp_all add: r matches_fixed_def)
  then show "fst (handle app \<lparr>req_method = m, req_path = ''/hello'', req_query = q,
      req_headers = h, req_body = b\<rparr>) = NotFound"
    by (simp add: handle_app)
next
  have r: "redirect_path ''/hello/a/b'' = ''/hello/a/b/''"
    by (simp add: redirect_path_def)
  have "fst (router_app app m ''/hello/a/b'' \<lparr>req_method = m, req_path = ''/hello/a/b'',
      req_query = q, req_headers = h, req_body = b\<rparr>) = NotFound"
    by (rule router_app_not_found) (auto simp add: r matches_fixed_def)
  then show "fst (handle app \<lparr>req_method = m, req_path = ''/hello/a/b'', req_query = q,
      req_headers = h, req_body = b\<rparr>) = NotFound"
    by (simp add: handle_app)
next
  assume a: "url_decode (req_path req) = ''/hello/'' @ s1 @ ''/'' @ s2 \<and> s2 \<noteq> []
        \<and> last s2 \<noteq> CHR ''/''"
  let ?p = "''/hello/'' @ s1 @ ''/'' @ s2"
  from a have "last ?p \<noteq> CHR ''/''" by simp
  then have r: "redirect_path ?p = ?p @ ''/''"
    by (intro redirect_path_no_slash) simp_all
  have u1: "(\<forall>f \<in> set [''/'', ''/openapi.json'', ''/docs'', ''/docs/oauth2-redirect'', ''/redoc''].
              \<not> matches_fixed f ?p)
           \<and> (\<forall>s. ?p = ''/hello/'' @ s \<longrightarrow> s = [] \<or> CHR ''/'' \<in> set s)"
    by (auto simp add: matches_fixed_def)
  have u2: "(\<forall>f \<in> set [''/'', ''/openapi.json'', ''/docs'', ''/docs/oauth2-redirect'', ''/redoc''].
              \<not> matches_fixed f (?p @ ''/''))
           \<and> (\<forall>s. ?p @ ''/'' = ''/hello/'' @ s \<longrightarrow> s = [] \<or> CHR ''/'' \<in> set s)"
    by (auto simp add: matches_fixed_def)
  have "fst (router_app app (req_method req) ?p req) = NotFound"
    using u1 u2 router_app_not_found [of ?p "req_method req" req] unfolding r by blast
  with a show nf: "fst (handle app req) = NotFound"
    by (simp only: handle_app)
  then show "status_code (fst (handle app req)) = 404"
    by simp
qed

text \<open>
  The hypothesis is met by the path \<^verbatim>\<open>/hello/x%2Fy/z\<close>, where an encoded separator
  adds one more segment.
\<close>

theorem hello_needs_one_segment_witness:
  "url_decode (req_path \<lparr>req_method = ''GET'', req_path = ''/hello/x%2Fy/z'', req_query = [],
      req_headers = [], req_body = []\<rparr>) = ''/hello/'' @ ''x/y'' @ ''/'' @ ''z''
   \<and> ''z'' \<noteq> [] \<and> last ''z'' \<noteq> CHR ''/''
   \<and> fst (handle app \<lparr>req_method = ''GET'', req_path = ''/hello/x%2Fy/z'', req_query = [],
      req_headers = [], req_body = []\<rparr>) = NotFound"
proof -
  have d: "url_decode ''/hello/x%2Fy/z'' = ''/hello/x/y/z''" by code_simp
  show ?thesis
    using d hello_needs_one_segment [of _ _ _ _ "\<lparr>req_method = ''GET'',
      req_path = ''/hello/x%2Fy/z'', req_query = [], req_headers = [], req_body = []\<rparr>"
      "''x/y''" "''z''"]
    by simp
qed

section \<open>Effects and inputs of handling a request\<close>



text \<open>
  C9. The response depends on the method and the decoded path only. Two requests with the
  same method and the same decoded path get the same response, whatever their query
  strings, headers and bodies, and however their paths were percent-encoded. In
  particular two \<^verbatim>\<open>GET\<close> requests that reach \<^verbatim>\<open>read_root\<close> both get its value,
  and two \<^verbatim>\<open>GET\<close> requests that reach \<^verbatim>\<open>read_item\<close> with the same name both get
  its value at that name.
\<close>

theorem response_ignores_rest:
  "(req_method r1 = req_method r2 \<and> url_decode (req_path r1) = url_decode (req_path r2)
      \<longrightarrow> fst (handle app r1) = fst (handle app r2))
   \<and> (req_method r1 = ''GET'' \<and> req_method r2 = ''GET''
      \<and> matches_fixed ''/'' (url_decode (req_path r1))
      \<and> matches_fixed ''/'' (url_decode (req_path r2))
      \<longrightarrow> fst (handle app r1) = Ok read_root \<and> fst (handle app r2) = Ok read_root)
   \<and> (req_method r1 = ''GET'' \<and> req_method r2 = ''GET''
      \<and> url_decode (req_path r1) = ''/hello/'' @ name
      \<and> url_decode (req_path r2) = ''/hello/'' @ name
      \<and> name \<noteq> [] \<and> CHR ''/'' \<notin> set name
      \<longrightarrow> fst (handle app r1) = Ok (read_item name) \<and> fst (handle app r2) = Ok (read_item name))"
proof (intro conjI impI)
  assume "req_method r1 = req_method r2 \<and> url_decode (req_path r1) = url_decode (req_path r2)"
  then show "fst (handle app r1) = fst (handle app r2)"
    using router_app_response [OF refl app_fields(1), of "req_method r1"
        "url_decode (req_path r1)" r1 r2]
    by (simp add: handle_app)
next
  assume a: "req_method r1 = ''GET'' \<and> req_method r2 = ''GET''
      \<and> matches_fixed ''/'' (url_decode (req_path r1))
      \<and> matches_fixed ''/'' (url_decode (req_path r2))"
  have root: "\<And>p r. matches_fixed ''/'' p \<Longrightarrow> fst (router_app app ''GET'' p r) = Ok read_root"
    by (auto simp add: router_app_def app_routes matches_fixed_def call_read_root_def)
  from a show "fst (handle app r1) = Ok read_root" by (simp add: handle_app root)
  from a show "fst (handle app r2) = Ok read_root" by (simp add: handle_app root)
next
  assume a: "req_method r1 = ''GET'' \<and> req_method r2 = ''GET''
      \<and> url_decode (req_path r1) = ''/hello/'' @ name
      \<and> url_decode (req_path r2) = ''/hello/'' @ name
      \<and> name \<noteq> [] \<and> CHR ''/'' \<notin> set name"
  then have n: "name \<noteq> []" "CHR ''/'' \<notin> set name" by blast+
  have h: "\<And>r. router_app app ''GET'' (''/hello/'' @ name) r = (Ok (read_item name), app)"
    using router_app_hello [OF refl n, of "''GET''"] by simp
  from a have 1: "handle app r1 = router_app app ''GET'' (''/hello/'' @ name) r1"
    by (simp only: handle_app)
  from a have 2: "handle app r2 = router_app app ''GET'' (''/hello/'' @ name) r2"
    by (simp only: handle_app)
  show "fst (handle app r1) = Ok (read_item name)" by (simp only: 1 h fst_conv)
  show "fst (handle app r2) = Ok (read_item name)" by (simp only: 2 h fst_conv)
qed

text \<open>
  Two requests for the same name that differ in the encoding of the path, the query
  string, the headers and the body; and two requests that reach \<^verbatim>\<open>read_root\<close>, by
  \<^verbatim>\<open>/\<close> and by \<^verbatim>\<open>/\<close> followed by an encoded newline.
\<close>

theorem response_ignores_rest_witness:
  "url_decode (req_path \<lparr>req_method = ''GET'', req_path = ''/hello/a%20b'', req_query = ''x=1'',
      req_headers = [(''accept'', ''text/html'')], req_body = ''payload''\<rparr>) = ''/hello/'' @ ''a b''
   \<and> url_decode (req_path \<lparr>req_method = ''GET'', req_path = ''/hello/%61%20b'', req_query = [],
      req_headers = [], req_body = []\<rparr>) = ''/hello/'' @ ''a b''
   \<and> ''a b'' \<noteq> [] \<and> CHR ''/'' \<notin> set ''a b''
   \<and> fst (handle app \<lparr>req_method = ''GET'', req_path = ''/hello/a%20b'', req_query = ''x=1'',
      req_headers = [(''accept'', ''text/html'')], req_body = ''payload''\<rparr>)
     = fst (handle app \<lparr>req_method = ''GET'', req_path = ''/hello/%61%20b'', req_query = [],
      req_headers = [], req_body = []\<rparr>)
   \<and> fst (handle app \<lparr>req_method = ''GET'', req_path = ''/hello/%61%20b'', req_query = [],
      req_headers = [], req_body = []\<rparr>) = Ok (read_item ''a b'')
   \<and> matches_fixed ''/'' (url_decode (req_path \<lparr>req_method = ''GET'', req_path = ''/'',
      req_query = ''x=1'', req_headers = [(''accept'', ''text/html'')], req_body = ''payload''\<rparr>))
   \<and> matches_fixed ''/'' (url_decode (req_path \<lparr>req_method = ''GET'', req_path = ''/%0A'',
      req_query = [], req_headers = [], req_body = []\<rparr>))
   \<and> fst (handle app \<lparr>req_method = ''GET'', req_path = ''/%0A'',
      req_query = [], req_headers = [], req_body = []\<rparr>) = Ok read_root"
proof -
  have d1: "url_decode ''/hello/a%20b'' = ''/hello/a b''" by code_simp
  have d2: "url_decode ''/hello/%61%20b'' = ''/hello/a b''" by code_simp
  have d3: "url_decode ''/%0A'' = ''/'' @ [CHR 0x0A]" by code_simp
  have 1: "fst (handle app \<lparr>req_method = ''GET'', req_path = ''/hello/a%20b'', req_query = ''x=1'',
      req_headers = [(''accept'', ''text/html'')], req_body = ''payload''\<rparr>)
     = fst (handle app \<lparr>req_method = ''GET'', req_path = ''/hello/%61%20b'', req_query = [],
      req_headers = [], req_body = []\<rparr>)
    \<and> fst (handle app \<lparr>req_method = ''GET'', req_path = ''/hello/%61%20b'', req_query = [],
      req_headers = [], req_body = []\<rparr>) = Ok (read_item ''a b'')"
    using d1 d2 response_ignores_rest [of
      "\<lparr>req_method = ''GET'', req_path = ''/hello/a%20b'', req_query = ''x=1'',
        req_headers = [(''accept'', ''text/html'')], req_body = ''payload''\<rparr>"
      "\<lparr>req_method = ''GET'', req_path = ''/hello/%61%20b'', req_query = [],
        req_headers = [], req_body = []\<rparr>" "''a b''"]
    by simp
  have 2: "fst (handle app \<lparr>req_method = ''GET'', req_path = ''/%0A'',
      req_query = [], req_headers = [], req_body = []\<rparr>) = Ok read_root"
    using d3 response_ignores_rest [of
      "\<lparr>req_method = ''GET'', req_path = ''/'', req_query = ''x=1'',
        req_headers = [(''accept'', ''text/html'')], req_body = ''payload''\<rparr>"
      "\<lparr>req_method = ''GET'', req_path = ''/%0A'', req_query = [],
        req_headers = [], req_body = []\<rparr>"]
    by (simp add: matches_fixed_def)
  show ?thesis using 1 2 d1 d2 d3 by (simp add: matches_fixed_def)
qed

section \<open>The values the endpoints return\<close>

text \<open>
  C6. What either endpoint returns is a JSON object in which the member
  \<^verbatim>\<open>message\<close> is present and is a string.
\<close>

theorem responses_have_message:
  "is_json_object read_root
   \<and> (\<exists>s. message_of read_root = Some s)
   \<and> is_json_object (read_item name)
   \<and> (\<exists>s. message_of (read_item name) = Some s)"
  by (simp add: read_root_def read_item_def)

text \<open>
  C10. The greeting is injective in the name: two names give the same value of
  \<^verbatim>\<open>message\<close>, or the same result of \<^verbatim>\<open>read_item\<close>, only when they are equal; the
  value is \<^verbatim>\<open>Hello \<close>, the name and \<^verbatim>\<open>!\<close>.
\<close>

theorem read_item_injective:
  "(''Hello '' @ n1 @ ''!'' = ''Hello '' @ n2 @ ''!'') = (n1 = n2)
   \<and> message_of (read_item n1) = Some (''Hello '' @ n1 @ ''!'')
   \<and> (read_item n1 = read_item n2) = (n1 = n2)"
  by (simp add: read_item_def)

end
